theory Spec2Isabelle
  imports Complex_Main
begin

section \<open>Numbers: Python and numpy floats\<close>

text \<open>
  Every number of \<^verbatim>\<open>train.py\<close> is a 64-bit float (a Python float, a numpy
  float64, or an entry of a pandas column). The model keeps the special values of IEEE
  arithmetic, which decide the control flow of the program (a comparison with NaN is false,
  a division by zero does not raise inside numpy and pandas), and idealises the finite
  values as exact reals: no rounding, no overflow, one zero (taken as positive).
\<close>

datatype pyfloat = Fin real | PInf | NInf | NaN

fun is_nan :: "pyfloat \<Rightarrow> bool" where
  "is_nan NaN = True"
| "is_nan _ = False"

fun fsgn :: "pyfloat \<Rightarrow> real" where
  "fsgn (Fin r) = sgn r"
| "fsgn PInf = 1"
| "fsgn NInf = - 1"
| "fsgn NaN = 0"

definition signed_inf :: "real \<Rightarrow> pyfloat" where
  "signed_inf s = (if 0 < s then PInf else if s < 0 then NInf else NaN)"

fun fneg :: "pyfloat \<Rightarrow> pyfloat" where
  "fneg (Fin r) = Fin (- r)"
| "fneg PInf = NInf"
| "fneg NInf = PInf"
| "fneg NaN = NaN"

fun fadd :: "pyfloat \<Rightarrow> pyfloat \<Rightarrow> pyfloat" where
  "fadd NaN _ = NaN"
| "fadd _ NaN = NaN"
| "fadd (Fin a) (Fin b) = Fin (a + b)"
| "fadd PInf NInf = NaN"
| "fadd NInf PInf = NaN"
| "fadd PInf _ = PInf"
| "fadd _ PInf = PInf"
| "fadd NInf _ = NInf"
| "fadd _ NInf = NInf"

definition fsub :: "pyfloat \<Rightarrow> pyfloat \<Rightarrow> pyfloat" where
  "fsub a b = fadd a (fneg b)"

fun fmul :: "pyfloat \<Rightarrow> pyfloat \<Rightarrow> pyfloat" where
  "fmul NaN _ = NaN"
| "fmul _ NaN = NaN"
| "fmul (Fin a) (Fin b) = Fin (a * b)"
| "fmul a b = signed_inf (fsgn a * fsgn b)"

text \<open>
  Division as numpy and pandas do it on float64 data: a zero divisor gives an infinity
  (NaN for \<open>0 / 0\<close>), never \<^verbatim>\<open>ZeroDivisionError\<close>.
\<close>

fun fdiv :: "pyfloat \<Rightarrow> pyfloat \<Rightarrow> pyfloat" where
  "fdiv NaN _ = NaN"
| "fdiv _ NaN = NaN"
| "fdiv (Fin a) (Fin b) = (if b = 0 then signed_inf a else Fin (a / b))"
| "fdiv (Fin a) _ = Fin 0"
| "fdiv a (Fin b) = signed_inf (fsgn a * (if b < 0 then - 1 else 1))"
| "fdiv _ _ = NaN"

fun fabs :: "pyfloat \<Rightarrow> pyfloat" where
  "fabs (Fin r) = Fin \<bar>r\<bar>"
| "fabs PInf = PInf"
| "fabs NInf = PInf"
| "fabs NaN = NaN"

fun fsqrt :: "pyfloat \<Rightarrow> pyfloat" where
  "fsqrt (Fin r) = (if r < 0 then NaN else Fin (sqrt r))"
| "fsqrt PInf = PInf"
| "fsqrt NInf = NaN"
| "fsqrt NaN = NaN"

text \<open>The comparison \<^verbatim>\<open><\<close>: false as soon as one side is NaN.\<close>

fun fless :: "pyfloat \<Rightarrow> pyfloat \<Rightarrow> bool" where
  "fless NaN _ = False"
| "fless _ NaN = False"
| "fless (Fin a) (Fin b) = (a < b)"
| "fless NInf NInf = False"
| "fless NInf _ = True"
| "fless _ NInf = False"
| "fless PInf _ = False"
| "fless _ PInf = True"

section \<open>pandas: columns and frames\<close>

text \<open>
  A column (\<^verbatim>\<open>pd.Series\<close>) under the default index \<open>0, 1, ..., n - 1\<close> that
  \<^verbatim>\<open>read_csv\<close> gives is the list of its entries. A frame is a map from column
  names to columns; \<^verbatim>\<open>frame["name"]\<close> raises \<^verbatim>\<open>KeyError\<close> on a name
  it does not hold.
\<close>

type_synonym series = "pyfloat list"

type_synonym dataframe = "string \<rightharpoonup> series"

datatype error = KeyError string | TypeError

text \<open>
  Arithmetic between two columns aligns them on the index: the result covers the longer
  one, and is NaN where the shorter one has no entry.
\<close>

fun series_binop :: "(pyfloat \<Rightarrow> pyfloat \<Rightarrow> pyfloat) \<Rightarrow> series \<Rightarrow> series \<Rightarrow> series" where
  "series_binop f [] ys = map (\<lambda>_. NaN) ys"
| "series_binop f xs [] = map (\<lambda>_. NaN) xs"
| "series_binop f (x # xs) (y # ys) = f x y # series_binop f xs ys"

text \<open>
  \<^verbatim>\<open>Series.mean()\<close> and \<^verbatim>\<open>Series.std()\<close> skip NaN entries
  (\<^verbatim>\<open>skipna=True\<close>); \<^verbatim>\<open>np.mean\<close> of a column calls the column's own
  \<^verbatim>\<open>mean\<close>. The mean of no entry at all is \<open>0 / 0\<close>, NaN. The standard deviation
  is the sample one (\<^verbatim>\<open>ddof=1\<close>), NaN on fewer than two entries.
\<close>

definition dropna :: "series \<Rightarrow> series" where
  "dropna xs = filter (\<lambda>x. \<not> is_nan x) xs"

definition series_sum :: "series \<Rightarrow> pyfloat" where
  "series_sum xs = foldr fadd xs (Fin 0)"

definition series_mean :: "series \<Rightarrow> pyfloat" where
  "series_mean xs = (let ys = dropna xs in fdiv (series_sum ys) (Fin (real (length ys))))"

definition series_std :: "series \<Rightarrow> pyfloat" where
  "series_std xs =
     (let ys = dropna xs;
          avg = fdiv (series_sum ys) (Fin (real (length ys)))
      in if length ys \<le> 1 then NaN
         else fsqrt (fdiv (series_sum (map (\<lambda>y. fmul (fsub avg y) (fsub avg y)) ys))
                          (Fin (real (length ys - 1)))))"

section \<open>The trainer\<close>

type_synonym theta = "pyfloat \<times> pyfloat"

text \<open>
  \<^verbatim>\<open>best_iterations\<close> holds \<^verbatim>\<open>float("inf")\<close> until the first update, an
  \<^verbatim>\<open>int\<close> afterwards; the other three best fields hold \<^verbatim>\<open>None\<close> until then.
\<close>

datatype iter_count = Infinity | Count int

fun count_less :: "int \<Rightarrow> iter_count \<Rightarrow> bool" where
  "count_less k Infinity = True"
| "count_less k (Count b) = (k < b)"

record trainer =
  mileages :: dataframe
  mean_km :: pyfloat
  std_km :: pyfloat
  best_learning_rate :: "pyfloat option"
  best_convergence_threshold :: "pyfloat option"
  best_iterations :: iter_count
  best_theta :: "theta option"

definition normalize_mileage :: "pyfloat \<Rightarrow> pyfloat \<Rightarrow> pyfloat \<Rightarrow> pyfloat" where
  "normalize_mileage mean std mileage = fdiv (fsub mileage mean) std"

text \<open>
  \<^verbatim>\<open>Trainer.__init__\<close>, from the frame that \<^verbatim>\<open>pd.read_csv("data.csv")\<close>
  returned. Nothing is checked: neither the number of rows nor the value of
  \<^verbatim>\<open>std_km\<close>.
\<close>

definition init :: "dataframe \<Rightarrow> error + trainer" where
  "init csv =
     (case csv ''km'' of
        None \<Rightarrow> Inl (KeyError ''km'')
      | Some km \<Rightarrow>
          (let mean = series_mean km;
               std = series_std km
           in Inr \<lparr> mileages = csv(''normalized_km'' \<mapsto> map (normalize_mileage mean std) km),
                    mean_km = mean,
                    std_km = std,
                    best_learning_rate = None,
                    best_convergence_threshold = None,
                    best_iterations = Infinity,
                    best_theta = None \<rparr>))"

definition estimate_price :: "pyfloat \<Rightarrow> theta \<Rightarrow> pyfloat" where
  "estimate_price normalized_mileage theta =
     fadd (fst theta) (fmul (snd theta) normalized_mileage)"

definition convergence_threshold_reached :: "theta \<Rightarrow> theta \<Rightarrow> pyfloat \<Rightarrow> bool" where
  "convergence_threshold_reached new_theta theta convergence_threshold =
     (fless (fabs (fsub (fst new_theta) (fst theta))) convergence_threshold
      \<and> fless (fabs (fsub (snd new_theta) (snd theta))) convergence_threshold)"

definition calculate_gradient :: "trainer \<Rightarrow> series \<Rightarrow> error + theta" where
  "calculate_gradient self errors =
     (case mileages self ''normalized_km'' of
        None \<Rightarrow> Inl (KeyError ''normalized_km'')
      | Some normalized_km \<Rightarrow>
          Inr (series_mean errors, series_mean (series_binop fmul errors normalized_km)))"

definition calculate_new_theta :: "theta \<Rightarrow> theta \<Rightarrow> pyfloat \<Rightarrow> theta" where
  "calculate_new_theta theta gradient_theta learning_rate =
     (fsub (fst theta) (fmul learning_rate (fst gradient_theta)),
      fsub (snd theta) (fmul learning_rate (snd gradient_theta)))"

text \<open>
  The loop of \<^verbatim>\<open>gradient_descent\<close>, entered at index \<open>i\<close> of
  \<^verbatim>\<open>range(iterations)\<close> with the current \<open>theta\<close>. The body assigns to no field of
  the trainer and to no column, so it returns a result and no state.
\<close>

function gd_loop ::
  "trainer \<Rightarrow> dataframe \<Rightarrow> pyfloat \<Rightarrow> pyfloat \<Rightarrow> int \<Rightarrow> int \<Rightarrow> theta \<Rightarrow> error + (int \<times> theta)"
where
  "gd_loop self df learning_rate convergence iterations i theta =
     (if i < iterations then
        (case mileages self ''normalized_km'' of
           None \<Rightarrow> Inl (KeyError ''normalized_km'')
         | Some normalized_km \<Rightarrow>
             (case df ''price'' of
                None \<Rightarrow> Inl (KeyError ''price'')
              | Some price \<Rightarrow>
                  (case calculate_gradient self
                          (series_binop fsub
                             (map (\<lambda>x. estimate_price x theta) normalized_km) price) of
                     Inl e \<Rightarrow> Inl e
                   | Inr grad_t \<Rightarrow>
                       (if convergence_threshold_reached
                             (calculate_new_theta theta grad_t learning_rate) theta convergence
                        then Inr (i + 1, theta)
                        else gd_loop self df learning_rate convergence iterations (i + 1)
                               (calculate_new_theta theta grad_t learning_rate)))))
      else Inr (iterations, theta))"
  by pat_completeness auto
termination
  by (relation "measure (\<lambda>(self, df, lr, ct, n, i, th). nat (n - i))") auto

declare gd_loop.simps [simp del]

definition gradient_descent ::
  "trainer \<Rightarrow> dataframe \<Rightarrow> pyfloat \<Rightarrow> pyfloat \<Rightarrow> int \<Rightarrow> error + (int \<times> theta)"
where
  "gradient_descent self df learning_rate convergence iterations =
     gd_loop self df learning_rate convergence iterations 0 (Fin 0, Fin 0)"

definition update_hyperparameters ::
  "trainer \<Rightarrow> int \<Rightarrow> pyfloat \<Rightarrow> pyfloat \<Rightarrow> theta \<Rightarrow> trainer"
where
  "update_hyperparameters self iters learning_rate convergence theta =
     self \<lparr> best_iterations := Count iters,
            best_learning_rate := Some learning_rate,
            best_convergence_threshold := Some convergence,
            best_theta := Some theta \<rparr>"

text \<open>
  The parameters that \<^verbatim>\<open>model_to_json\<close> writes to \<^verbatim>\<open>model.json\<close>, under the
  keys \<^verbatim>\<open>theta_0\<close>, \<^verbatim>\<open>theta_1\<close>, \<^verbatim>\<open>mean_km\<close> and \<^verbatim>\<open>std_km\<close> (the last
  two fields are prefixed here, the trainer having fields of the same names). Subscripting
  \<^verbatim>\<open>best_theta\<close> while it is \<^verbatim>\<open>None\<close> raises \<^verbatim>\<open>TypeError\<close>; NaN is
  written as it is.
\<close>

record model_params =
  theta_0 :: pyfloat
  theta_1 :: pyfloat
  json_mean_km :: pyfloat
  json_std_km :: pyfloat

definition model_to_json :: "trainer \<Rightarrow> error + model_params" where
  "model_to_json self =
     (case best_theta self of
        None \<Rightarrow> Inl TypeError
      | Some th \<Rightarrow>
          Inr \<lparr> theta_0 = fst th, theta_1 = snd th,
                json_mean_km = mean_km self, json_std_km = std_km self \<rparr>)"

text \<open>
  The two loops of \<^verbatim>\<open>hyperparameter_tuning\<close>. The trainer is threaded through
  them; an exception leaves it as it was when the exception was raised.
\<close>

fun tuning_inner :: "trainer \<Rightarrow> dataframe \<Rightarrow> pyfloat \<Rightarrow> pyfloat list \<Rightarrow> trainer \<times> error option"
where
  "tuning_inner self df lr [] = (self, None)"
| "tuning_inner self df lr (ct # cts) =
     (case gradient_descent self df lr ct 500 of
        Inl e \<Rightarrow> (self, Some e)
      | Inr (iters, theta) \<Rightarrow>
          tuning_inner
            (if count_less iters (best_iterations self)
             then update_hyperparameters self iters lr ct theta else self)
            df lr cts)"

fun tuning_outer :: "trainer \<Rightarrow> dataframe \<Rightarrow> pyfloat list \<Rightarrow> pyfloat list \<Rightarrow> trainer \<times> error option"
where
  "tuning_outer self df [] cts = (self, None)"
| "tuning_outer self df (lr # lrs) cts =
     (case tuning_inner self df lr cts of
        (self', Some e) \<Rightarrow> (self', Some e)
      | (self', None) \<Rightarrow> tuning_outer self' df lrs cts)"

text \<open>
  \<^verbatim>\<open>hyperparameter_tuning\<close> returns the trainer as the call leaves it, and either
  the exception raised or the file written together with the value returned.
\<close>

definition hyperparameter_tuning ::
  "trainer \<Rightarrow> dataframe \<Rightarrow> pyfloat list \<Rightarrow> pyfloat list
     \<Rightarrow> trainer \<times> (error + (model_params \<times> theta option))"
where
  "hyperparameter_tuning self df learning_rates convergence_thresholds =
     (case tuning_outer self df learning_rates convergence_thresholds of
        (self', Some e) \<Rightarrow> (self', Inl e)
      | (self', None) \<Rightarrow>
          (case model_to_json self' of
             Inl e \<Rightarrow> (self', Inl e)
           | Inr written \<Rightarrow> (self', Inr (written, best_theta self'))))"

section \<open>Notions used to state the properties\<close>

text \<open>
  One pass of the loop body over the stored normalized column and a price column: the
  parameters that \<^verbatim>\<open>calculate_new_theta\<close> returns.
\<close>

definition next_theta :: "series \<Rightarrow> series \<Rightarrow> pyfloat \<Rightarrow> theta \<Rightarrow> theta" where
  "next_theta normalized_km price learning_rate theta =
     (let errors = series_binop fsub (map (\<lambda>x. estimate_price x theta) normalized_km) price
      in calculate_new_theta theta
           (series_mean errors, series_mean (series_binop fmul errors normalized_km))
           learning_rate)"

text \<open>The parameters after \<open>n\<close> updates, from \<open>[0, 0]\<close>.\<close>

primrec theta_after :: "series \<Rightarrow> series \<Rightarrow> pyfloat \<Rightarrow> nat \<Rightarrow> theta" where
  "theta_after normalized_km price learning_rate 0 = (Fin 0, Fin 0)"
| "theta_after normalized_km price learning_rate (Suc n) =
     next_theta normalized_km price learning_rate
       (theta_after normalized_km price learning_rate n)"

text \<open>The convergence test at iteration \<open>n\<close>: the update \<open>n + 1\<close> against the value before it.\<close>

definition converges_at :: "series \<Rightarrow> series \<Rightarrow> pyfloat \<Rightarrow> pyfloat \<Rightarrow> nat \<Rightarrow> bool" where
  "converges_at normalized_km price learning_rate convergence n =
     convergence_threshold_reached
       (theta_after normalized_km price learning_rate (Suc n))
       (theta_after normalized_km price learning_rate n) convergence"

text \<open>
  The mean of a vector over all its entries, in the arithmetic of the program: NaN for no
  entry, and NaN as soon as one entry is NaN.
\<close>

definition mean :: "series \<Rightarrow> pyfloat" where
  "mean xs = fdiv (foldr fadd xs (Fin 0)) (Fin (real (length xs)))"

fun is_fin :: "pyfloat \<Rightarrow> bool" where
  "is_fin (Fin _) = True"
| "is_fin _ = False"

text \<open>The order on iteration counts in which \<^verbatim>\<open>float("inf")\<close> is the greatest.\<close>

fun count_le :: "iter_count \<Rightarrow> iter_count \<Rightarrow> bool" where
  "count_le _ Infinity = True"
| "count_le Infinity (Count _) = False"
| "count_le (Count a) (Count b) = (a \<le> b)"

text \<open>
  The candidates in the order of the search: learning rates in the outer loop, thresholds
  in the inner one.
\<close>

definition grid :: "pyfloat list \<Rightarrow> pyfloat list \<Rightarrow> (pyfloat \<times> pyfloat) list" where
  "grid learning_rates convergence_thresholds =
     concat (map (\<lambda>lr. map (\<lambda>ct. (lr, ct)) convergence_thresholds) learning_rates)"

text \<open>
  The search as one pass over a list of candidates, with the best-result state as the
  accumulator: a candidate replaces it when its iteration count is strictly smaller.
\<close>

fun search_fold ::
  "trainer \<Rightarrow> dataframe \<Rightarrow> (pyfloat \<times> pyfloat) list \<Rightarrow> trainer \<times> error option"
where
  "search_fold self df [] = (self, None)"
| "search_fold self df ((lr, ct) # candidates) =
     (case gradient_descent self df lr ct 500 of
        Inl e \<Rightarrow> (self, Some e)
      | Inr (iters, theta) \<Rightarrow>
          search_fold
            (if count_less iters (best_iterations self)
             then update_hyperparameters self iters lr ct theta else self)
            df candidates)"

text \<open>A small sample set: mileages 0, 2, 4 (mean 2, deviation 2), prices 3, 2, 1.\<close>

definition sample_csv :: dataframe where
  "sample_csv = [''km'' \<mapsto> [Fin 0, Fin 2, Fin 4], ''price'' \<mapsto> [Fin 3, Fin 2, Fin 1]]"

definition sample_trainer :: trainer where
  "sample_trainer =
     \<lparr> mileages = sample_csv(''normalized_km'' \<mapsto> [Fin (- 1), Fin 0, Fin 1]),
       mean_km = Fin 2, std_km = Fin 2,
       best_learning_rate = None, best_convergence_threshold = None,
       best_iterations = Infinity, best_theta = None \<rparr>"


text \<open>The best-result state of the search: the four best fields of the trainer.\<close>

definition best_result ::
  "trainer \<Rightarrow> iter_count \<times> pyfloat option \<times> pyfloat option \<times> theta option" where
  "best_result self =
     (best_iterations self, best_learning_rate self, best_convergence_threshold self,
      best_theta self)"

text \<open>The run of the optimizer that the search makes for a candidate.\<close>

definition run_candidate ::
  "trainer \<Rightarrow> dataframe \<Rightarrow> pyfloat \<times> pyfloat \<Rightarrow> error + (int \<times> theta)" where
  "run_candidate self df c = gradient_descent self df (fst c) (snd c) 500"

text \<open>A sample set of one row, and one of two rows with the same mileage.\<close>

definition single_csv :: dataframe where
  "single_csv = [''km'' \<mapsto> [Fin 5], ''price'' \<mapsto> [Fin 1]]"

definition single_trainer :: trainer where
  "single_trainer =
     \<lparr> mileages = single_csv(''normalized_km'' \<mapsto> [NaN]),
       mean_km = Fin 5, std_km = NaN,
       best_learning_rate = None, best_convergence_threshold = None,
       best_iterations = Infinity, best_theta = None \<rparr>"

definition flat_csv :: dataframe where
  "flat_csv = [''km'' \<mapsto> [Fin 5, Fin 5], ''price'' \<mapsto> [Fin 1, Fin 2]]"

definition flat_trainer :: trainer where
  "flat_trainer =
     \<lparr> mileages = flat_csv(''normalized_km'' \<mapsto> [NaN, NaN]),
       mean_km = Fin 5, std_km = Fin 0,
       best_learning_rate = None, best_convergence_threshold = None,
       best_iterations = Infinity, best_theta = None \<rparr>"

section \<open>The loop of gradient descent\<close>

lemma sample_trainer_init: "init sample_csv = Inr sample_trainer"
  by (simp add: init_def sample_csv_def sample_trainer_def series_mean_def series_std_def
      dropna_def series_sum_def fsub_def normalize_mileage_def Let_def)

lemma gd_loop_step:
  assumes "mileages self ''normalized_km'' = Some nk" and "df ''price'' = Some price"
  shows "gd_loop self df lr ct n i th =
           (if i < n then
              (if convergence_threshold_reached (next_theta nk price lr th) th ct
               then Inr (i + 1, th)
               else gd_loop self df lr ct n (i + 1) (next_theta nk price lr th))
            else Inr (n, th))"
  using assms
  by (subst gd_loop.simps) (simp add: calculate_gradient_def next_theta_def Let_def)

lemma gd_loop_skip:
  assumes nk: "mileages self ''normalized_km'' = Some nk" and pr: "df ''price'' = Some price"
    and "\<forall>j<m. \<not> converges_at nk price lr ct (k + j)"
    and "int (k + m) \<le> n"
  shows "gd_loop self df lr ct n (int k) (theta_after nk price lr k) =
         gd_loop self df lr ct n (int (k + m)) (theta_after nk price lr (k + m))"
  using assms(3,4)
proof (induction m arbitrary: k)
  case 0
  then show ?case by simp
next
  case (Suc m)
  have a: "\<not> converges_at nk price lr ct k" using Suc.prems(1) by force
  have b: "\<forall>j<m. \<not> converges_at nk price lr ct (Suc k + j)"
    using Suc.prems(1) by (metis Suc_less_eq add_Suc_shift)
  have c: "int (Suc k + m) \<le> n" using Suc.prems(2) by simp
  have "gd_loop self df lr ct n (int k) (theta_after nk price lr k)
        = gd_loop self df lr ct n (int (Suc k)) (theta_after nk price lr (Suc k))"
    using a Suc.prems(2)
    by (subst gd_loop_step [of self nk df price, OF nk pr])
       (simp add: converges_at_def add.commute)
  also have "\<dots> = gd_loop self df lr ct n (int (Suc k + m))
                     (theta_after nk price lr (Suc k + m))"
    using Suc.IH [OF b c] .
  finally show ?case by simp
qed

lemma gd_loop_total:
  "mileages self ''normalized_km'' = Some nk \<Longrightarrow> df ''price'' = Some price \<Longrightarrow>
     \<exists>k th'. gd_loop self df lr ct n i th = Inr (k, th')"
proof (induction self df lr ct n i th rule: gd_loop.induct)
  case (1 self df lr ct n i th)
  note nk = "1.prems"(1) and pr = "1.prems"(2)
  have g: "calculate_gradient self
             (series_binop fsub (map (\<lambda>x. estimate_price x th) nk) price)
           = Inr (series_mean (series_binop fsub (map (\<lambda>x. estimate_price x th) nk) price),
                  series_mean (series_binop fmul
                    (series_binop fsub (map (\<lambda>x. estimate_price x th) nk) price) nk))"
    using nk by (simp add: calculate_gradient_def)
  show ?case
  proof (cases "i < n \<and> \<not> convergence_threshold_reached (next_theta nk price lr th) th ct")
    case True
    then have "\<exists>k th'. gd_loop self df lr ct n (i + 1) (next_theta nk price lr th) = Inr (k, th')"
      using "1.IH" [OF _ nk pr g _ nk pr] by (simp add: next_theta_def Let_def)
    with True show ?thesis
      by (subst gd_loop_step [of self nk df price, OF nk pr]) simp
  next
    case False
    then show ?thesis
      by (subst gd_loop_step [of self nk df price, OF nk pr]) auto
  qed
qed

lemma gd_loop_bounds:
  "gd_loop self df lr ct n i th = Inr (k, th') \<Longrightarrow> i \<le> n \<Longrightarrow>
     i \<le> k \<and> k \<le> n \<and> (i < n \<longrightarrow> i < k)"
proof (induction self df lr ct n i th rule: gd_loop.induct)
  case (1 self df lr ct n i th)
  show ?case
  proof (cases "i < n")
    case False
    with "1.prems" show ?thesis by (subst (asm) gd_loop.simps) simp
  next
    case True
    show ?thesis
    proof (cases "mileages self ''normalized_km''")
      case None
      with True "1.prems" show ?thesis by (subst (asm) gd_loop.simps) simp
    next
      case (Some nk)
      note nk = this
      show ?thesis
      proof (cases "df ''price''")
        case None
        with True nk "1.prems" show ?thesis by (subst (asm) gd_loop.simps) simp
      next
        case (Some price)
        note pr = this
        obtain g where g: "calculate_gradient self
            (series_binop fsub (map (\<lambda>x. estimate_price x th) nk) price) = Inr g"
          using nk by (simp add: calculate_gradient_def)
        show ?thesis
        proof (cases "convergence_threshold_reached (calculate_new_theta th g lr) th ct")
          case True
          with \<open>i < n\<close> nk pr g "1.prems" show ?thesis
            by (subst (asm) gd_loop.simps) auto
        next
          case False
          with \<open>i < n\<close> nk pr g "1.prems"(1)
          have "gd_loop self df lr ct n (i + 1) (calculate_new_theta th g lr) = Inr (k, th')"
            by (subst (asm) gd_loop.simps) simp
          from "1.IH" [OF \<open>i < n\<close> nk pr g False this] \<open>i < n\<close>
          show ?thesis by simp
        qed
      qed
    qed
  qed
qed

lemmas sample_eval =
  gradient_descent_def gd_loop.simps sample_trainer_def sample_csv_def calculate_gradient_def
  estimate_price_def calculate_new_theta_def convergence_threshold_reached_def
  series_mean_def dropna_def series_sum_def fsub_def next_theta_def converges_at_def Let_def

section \<open>Convergence and the iteration budget\<close>

text \<open>
  Claim C1. Whatever the learning rate, the threshold and the budget: when \<open>i\<close> is the
  first iteration of the budget at which the change of both parameters is below the
  threshold (each one on its own), \<^verbatim>\<open>gradient_descent\<close> returns \<open>i + 1\<close> together
  with the parameters as they were before that update, not the updated ones; and the test
  is the conjunction of the two comparisons.
\<close>

theorem gradient_descent_first_convergence:
  assumes nk: "mileages self ''normalized_km'' = Some nk"
    and pr: "df ''price'' = Some price"
    and budget: "int i < iterations"
    and conv: "converges_at nk price lr ct i"
    and first: "\<forall>j<i. \<not> converges_at nk price lr ct j"
  shows "gradient_descent self df lr ct iterations = Inr (int i + 1, theta_after nk price lr i)
       \<and> converges_at nk price lr ct i =
           (fless (fabs (fsub (fst (theta_after nk price lr (Suc i)))
                               (fst (theta_after nk price lr i)))) ct
          \<and> fless (fabs (fsub (snd (theta_after nk price lr (Suc i)))
                               (snd (theta_after nk price lr i)))) ct)"
proof
  have "gd_loop self df lr ct iterations (int 0) (theta_after nk price lr 0)
        = gd_loop self df lr ct iterations (int (0 + i)) (theta_after nk price lr (0 + i))"
    using first budget by (intro gd_loop_skip [where self = self and df = df, OF nk pr]) simp_all
  also have "\<dots> = Inr (int i + 1, theta_after nk price lr i)"
    using conv budget
    by (subst gd_loop_step [of self nk df price, OF nk pr]) (simp add: converges_at_def)
  finally show "gradient_descent self df lr ct iterations
                = Inr (int i + 1, theta_after nk price lr i)"
    by (simp add: gradient_descent_def)
next
  show "converges_at nk price lr ct i =
           (fless (fabs (fsub (fst (theta_after nk price lr (Suc i)))
                               (fst (theta_after nk price lr i)))) ct
          \<and> fless (fabs (fsub (snd (theta_after nk price lr (Suc i)))
                               (snd (theta_after nk price lr i)))) ct)"
    unfolding converges_at_def convergence_threshold_reached_def ..
qed

theorem gradient_descent_first_convergence_witness:
  "gradient_descent sample_trainer sample_csv (Fin 1) (Fin (1 / 10)) 500
     = Inr (3, (Fin 2, Fin (- 8 / 9)))
   \<and> \<not> converges_at [Fin (- 1), Fin 0, Fin 1] [Fin 3, Fin 2, Fin 1] (Fin 1) (Fin (1 / 10)) 0
   \<and> \<not> converges_at [Fin (- 1), Fin 0, Fin 1] [Fin 3, Fin 2, Fin 1] (Fin 1) (Fin (1 / 10)) 1
   \<and> converges_at [Fin (- 1), Fin 0, Fin 1] [Fin 3, Fin 2, Fin 1] (Fin 1) (Fin (1 / 10)) 2"
proof -
  let ?nk = "[Fin (- 1), Fin 0, Fin 1]" and ?price = "[Fin 3, Fin 2, Fin 1]"
  have nk: "mileages sample_trainer ''normalized_km'' = Some ?nk"
    by (simp add: sample_trainer_def)
  have pr: "sample_csv ''price'' = Some ?price"
    by (simp add: sample_csv_def)
  have c0: "\<not> converges_at ?nk ?price (Fin 1) (Fin (1 / 10)) 0"
    by (simp add: sample_eval)
  have c1: "\<not> converges_at ?nk ?price (Fin 1) (Fin (1 / 10)) 1"
    by (simp add: sample_eval)
  have c2: "converges_at ?nk ?price (Fin 1) (Fin (1 / 10)) 2"
    by (simp add: sample_eval numeral_2_eq_2)
  have th: "theta_after ?nk ?price (Fin 1) 2 = (Fin 2, Fin (- 8 / 9))"
    by (simp add: sample_eval numeral_2_eq_2)
  have first: "\<forall>j<2. \<not> converges_at ?nk ?price (Fin 1) (Fin (1 / 10)) j"
    using c0 c1 by (auto simp: less_Suc_eq numeral_2_eq_2)
  have b: "int 2 < 500" by simp
  from gradient_descent_first_convergence
    [where self = sample_trainer and df = sample_csv, OF nk pr b c2 first] th c0 c1 c2
  show ?thesis by simp
qed

lemma gradient_descent_exhausts:
  assumes nk: "mileages self ''normalized_km'' = Some nk"
    and pr: "df ''price'' = Some price"
    and pos: "0 < iterations"
    and no: "\<forall>j. int j < iterations \<longrightarrow> \<not> converges_at nk price lr ct j"
  shows "gradient_descent self df lr ct iterations
           = Inr (iterations, theta_after nk price lr (nat iterations))"
proof -
  have "gd_loop self df lr ct iterations (int 0) (theta_after nk price lr 0)
        = gd_loop self df lr ct iterations (int (0 + nat iterations))
            (theta_after nk price lr (0 + nat iterations))"
    using no pos by (intro gd_loop_skip [where self = self and df = df, OF nk pr]) simp_all
  also have "\<dots> = Inr (iterations, theta_after nk price lr (nat iterations))"
    using pos by (subst gd_loop_step [of self nk df price, OF nk pr]) simp
  finally show ?thesis by (simp add: gradient_descent_def)
qed

text \<open>
  Claim C4. \<^verbatim>\<open>gradient_descent\<close> is a total function: the loop is defined by a
  recursion that the measure \<open>iterations - i\<close> bounds. On a positive budget it returns a
  count between 1 and the budget; when no iteration of the budget passes the convergence
  test, it returns the budget and the parameters after the last update.
\<close>

theorem gradient_descent_within_budget:
  assumes nk: "mileages self ''normalized_km'' = Some nk"
    and pr: "df ''price'' = Some price"
    and pos: "0 < iterations"
  shows "(\<exists>k th. gradient_descent self df lr ct iterations = Inr (k, th)
             \<and> 1 \<le> k \<and> k \<le> iterations)
       \<and> ((\<forall>j. int j < iterations \<longrightarrow> \<not> converges_at nk price lr ct j) \<longrightarrow>
            gradient_descent self df lr ct iterations
              = Inr (iterations, theta_after nk price lr (nat iterations)))"
proof (intro conjI impI)
  obtain k th where r: "gd_loop self df lr ct iterations 0 (Fin 0, Fin 0) = Inr (k, th)"
    using gd_loop_total [where self = self and df = df, OF nk pr] by blast
  from gd_loop_bounds [OF r] pos have "1 \<le> k \<and> k \<le> iterations" by simp
  with r show "\<exists>k th. gradient_descent self df lr ct iterations = Inr (k, th)
             \<and> 1 \<le> k \<and> k \<le> iterations"
    by (simp add: gradient_descent_def)
next
  assume no: "\<forall>j. int j < iterations \<longrightarrow> \<not> converges_at nk price lr ct j"
  with nk pr pos show "gradient_descent self df lr ct iterations
                  = Inr (iterations, theta_after nk price lr (nat iterations))"
    by (rule gradient_descent_exhausts [where self = self and df = df])
qed

theorem gradient_descent_within_budget_witness:
  "(0::int) < 2
   \<and> gradient_descent sample_trainer sample_csv (Fin 1) (Fin (1 / 10)) 2
       = Inr (2, (Fin 2, Fin (- 8 / 9)))
   \<and> theta_after [Fin (- 1), Fin 0, Fin 1] [Fin 3, Fin 2, Fin 1] (Fin 1) (nat 2)
       = (Fin 2, Fin (- 8 / 9))"
proof -
  let ?nk = "[Fin (- 1), Fin 0, Fin 1]" and ?price = "[Fin 3, Fin 2, Fin 1]"
  have nk: "mileages sample_trainer ''normalized_km'' = Some ?nk"
    by (simp add: sample_trainer_def)
  have pr: "sample_csv ''price'' = Some ?price"
    by (simp add: sample_csv_def)
  have pos: "(0::int) < 2" by simp
  have c0: "\<not> converges_at ?nk ?price (Fin 1) (Fin (1 / 10)) 0"
    by (simp add: sample_eval)
  have c1: "\<not> converges_at ?nk ?price (Fin 1) (Fin (1 / 10)) 1"
    by (simp add: sample_eval)
  have th: "theta_after ?nk ?price (Fin 1) (nat 2) = (Fin 2, Fin (- 8 / 9))"
    by (simp add: sample_eval numeral_2_eq_2)
  have no: "\<forall>j. int j < 2 \<longrightarrow> \<not> converges_at ?nk ?price (Fin 1) (Fin (1 / 10)) j"
  proof (intro allI impI)
    fix j :: nat assume "int j < 2"
    then have "j = 0 \<or> j = 1" by auto
    with c0 c1 show "\<not> converges_at ?nk ?price (Fin 1) (Fin (1 / 10)) j" by auto
  qed
  from gradient_descent_within_budget
    [where self = sample_trainer and df = sample_csv and lr = "Fin 1" and ct = "Fin (1 / 10)",
      OF nk pr pos] no th
  show ?thesis by simp
qed

lemma fless_trans: "fless x y \<Longrightarrow> fless y z \<Longrightarrow> fless x z"
  by (cases x; cases y; cases z) auto

lemma convergence_threshold_mono:
  "fless ct' ct \<Longrightarrow> convergence_threshold_reached a b ct' \<Longrightarrow>
     convergence_threshold_reached a b ct"
  by (auto simp: convergence_threshold_reached_def intro: fless_trans)

lemma gd_loop_threshold_mono:
  assumes lt: "fless ct' ct"
  shows "gd_loop self df lr ct' n i th = Inr (k', th') \<Longrightarrow>
         gd_loop self df lr ct n i th = Inr (k, th'') \<Longrightarrow> k \<le> k'"
proof (induction "nat (n - i)" arbitrary: i th)
  case 0
  then have "\<not> i < n" by simp
  with "0.prems" show ?case by (simp add: gd_loop.simps)
next
  case (Suc m)
  then have lt_n: "i < n" by simp
  show ?case
  proof (cases "mileages self ''normalized_km''")
    case None
    with lt_n Suc.prems(1) show ?thesis by (simp add: gd_loop.simps)
  next
    case (Some nk)
    note nk = this
    show ?thesis
    proof (cases "df ''price''")
      case None
      with lt_n nk Suc.prems(1) show ?thesis by (simp add: gd_loop.simps)
    next
      case (Some price)
      note pr = this
      note step = gd_loop_step [where self = self and df = df, OF nk pr]
      let ?new = "next_theta nk price lr th"
      show ?thesis
      proof (cases "convergence_threshold_reached ?new th ct'")
        case True
        then have "convergence_threshold_reached ?new th ct"
          using lt by (rule convergence_threshold_mono [rotated])
        with True lt_n Suc.prems show ?thesis by (simp add: step)
      next
        case False
        with lt_n Suc.prems(1)
        have r': "gd_loop self df lr ct' n (i + 1) ?new = Inr (k', th')"
          by (simp add: step)
        show ?thesis
        proof (cases "convergence_threshold_reached ?new th ct")
          case True
          with lt_n Suc.prems(2) have "k = i + 1" by (simp add: step)
          moreover from gd_loop_bounds [OF r'] lt_n have "i + 1 \<le> k'" by simp
          ultimately show ?thesis by simp
        next
          case False
          with lt_n Suc.prems(2)
          have r: "gd_loop self df lr ct n (i + 1) ?new = Inr (k, th'')"
            by (simp add: step)
          have "m = nat (n - (i + 1))" using Suc.hyps(2) by simp
          from Suc.hyps(1) [OF this r' r] show ?thesis .
        qed
      qed
    qed
  qed
qed

text \<open>
  Claim C8. With the learning rate, the sample set and the budget fixed, a smaller
  threshold never gives a smaller iteration count. This holds for every budget, so also
  for one high enough for both runs to converge.
\<close>

theorem gradient_descent_threshold_monotone:
  assumes "fless ct' ct"
    and "gradient_descent self df lr ct' iterations = Inr (k', th')"
    and "gradient_descent self df lr ct iterations = Inr (k, th)"
  shows "k \<le> k'"
  using assms unfolding gradient_descent_def by (rule gd_loop_threshold_mono)

theorem gradient_descent_threshold_monotone_witness:
  "fless (Fin (1 / 10)) (Fin 1)
   \<and> gradient_descent sample_trainer sample_csv (Fin 1) (Fin (1 / 10)) 500
       = Inr (3, (Fin 2, Fin (- 8 / 9)))
   \<and> gradient_descent sample_trainer sample_csv (Fin 1) (Fin 1) 500
       = Inr (2, (Fin 2, Fin (- 2 / 3)))
   \<and> (2::int) \<le> 3"
proof -
  have a: "fless (Fin (1 / 10)) (Fin 1)" by simp
  have b: "gradient_descent sample_trainer sample_csv (Fin 1) (Fin (1 / 10)) 500
       = Inr (3, (Fin 2, Fin (- 8 / 9)))"
    by (simp add: sample_eval)
  have c: "gradient_descent sample_trainer sample_csv (Fin 1) (Fin 1) 500
       = Inr (2, (Fin 2, Fin (- 2 / 3)))"
    by (simp add: sample_eval)
  from gradient_descent_threshold_monotone [OF a b c] a b c show ?thesis by simp
qed

section \<open>What gradient descent reads\<close>

lemma gd_loop_price:
  "df1 ''price'' = df2 ''price'' \<Longrightarrow>
     gd_loop self df1 lr ct n i th = gd_loop self df2 lr ct n i th"
proof (induction self df1 lr ct n i th rule: gd_loop.induct)
  case (1 self df1 lr ct n i th)
  show ?case
    by (subst gd_loop.simps [of self df1], subst gd_loop.simps [of self df2])
       (auto simp: "1.prems" [symmetric] intro: "1.IH" split: option.splits sum.splits)
qed

text \<open>
  Claim C10. The frame passed to \<^verbatim>\<open>gradient_descent\<close> is read through its price
  column only: two frames with the same price column give the same result, whatever their
  other columns hold. The mileages come from the column that the trainer stores.
\<close>

theorem gradient_descent_reads_price_only:
  assumes "df1 ''price'' = df2 ''price''"
  shows "gradient_descent self df1 lr ct iterations = gradient_descent self df2 lr ct iterations"
  using assms unfolding gradient_descent_def by (rule gd_loop_price)

theorem gradient_descent_reads_price_only_witness:
  "sample_csv ''price'' = [''km'' \<mapsto> [Fin 7], ''price'' \<mapsto> [Fin 3, Fin 2, Fin 1]] ''price''
   \<and> sample_csv ''km'' \<noteq> [''km'' \<mapsto> [Fin 7], ''price'' \<mapsto> [Fin 3, Fin 2, Fin 1]] ''km''
   \<and> gradient_descent sample_trainer
         [''km'' \<mapsto> [Fin 7], ''price'' \<mapsto> [Fin 3, Fin 2, Fin 1]] (Fin 1) (Fin 1) 500
       = Inr (2, (Fin 2, Fin (- 2 / 3)))"
proof -
  let ?df = "[''km'' \<mapsto> [Fin 7], ''price'' \<mapsto> [Fin 3, Fin 2, Fin 1]]"
  have a: "sample_csv ''price'' = ?df ''price''" by (simp add: sample_csv_def)
  have b: "sample_csv ''km'' \<noteq> ?df ''km''" by (simp add: sample_csv_def)
  have c: "gradient_descent sample_trainer sample_csv (Fin 1) (Fin 1) 500
             = Inr (2, (Fin 2, Fin (- 2 / 3)))"
    by (simp add: sample_eval)
  from gradient_descent_reads_price_only
    [where ?df1.0 = sample_csv and ?df2.0 = ?df and self = sample_trainer and lr = "Fin 1"
       and ct = "Fin 1" and iterations = 500, OF a] a b c
  show ?thesis by simp
qed

section \<open>The gradient\<close>

lemma series_binop_same_length:
  "length xs = length ys \<Longrightarrow> series_binop f xs ys = map2 f xs ys"
  by (induction xs ys rule: list_induct2) simp_all

lemma series_mean_skips_nan: "series_mean xs = mean (filter (\<lambda>x. \<not> is_nan x) xs)"
  by (simp add: series_mean_def dropna_def series_sum_def mean_def Let_def)

lemma filter_no_nan: "\<forall>x\<in>set xs. \<not> is_nan x \<Longrightarrow> filter (\<lambda>x. \<not> is_nan x) xs = xs"
  by (induction xs) simp_all

text \<open>
  Claim C2, as stated, fails: on the errors 1, NaN, 3 (a row without price) against the
  normalized mileages -1, 0, 1 the gradient is \<open>[2, 1]\<close>, the means over the first and the
  third row; over the three rows both means are NaN.
\<close>

theorem calculate_gradient_drops_nan_rows:
  "length [Fin 1, NaN, Fin 3] = length [Fin (- 1), Fin 0, Fin 1]
   \<and> mileages sample_trainer ''normalized_km'' = Some [Fin (- 1), Fin 0, Fin 1]
   \<and> calculate_gradient sample_trainer [Fin 1, NaN, Fin 3] = Inr (Fin 2, Fin 1)
   \<and> mean [Fin 1, Fin 3] = Fin 2
   \<and> mean [Fin 1, NaN, Fin 3] = NaN
   \<and> mean (map2 fmul [Fin 1, NaN, Fin 3] [Fin (- 1), Fin 0, Fin 1]) = NaN"
  by (simp add: sample_trainer_def calculate_gradient_def series_mean_def dropna_def
      series_sum_def mean_def)

text \<open>
  Claim C2, amended. For a vector of errors and the stored vector of normalized mileages,
  of the same length, \<^verbatim>\<open>calculate_gradient\<close> returns the mean of the errors that are
  not NaN and the mean of the products, row by row, of the errors with the normalized
  mileages that are not NaN. When no error and no product is NaN, these are the means over
  the entire sample set.
\<close>

theorem calculate_gradient_skips_nan:
  assumes nk: "mileages self ''normalized_km'' = Some normalized_mileage"
    and len: "length errors = length normalized_mileage"
  shows "calculate_gradient self errors
           = Inr (mean (filter (\<lambda>x. \<not> is_nan x) errors),
                  mean (filter (\<lambda>x. \<not> is_nan x) (map2 fmul errors normalized_mileage)))
       \<and> ((\<forall>x\<in>set errors. \<not> is_nan x)
            \<and> (\<forall>x\<in>set (map2 fmul errors normalized_mileage). \<not> is_nan x) \<longrightarrow>
          calculate_gradient self errors
            = Inr (mean errors, mean (map2 fmul errors normalized_mileage)))"
proof -
  have g: "calculate_gradient self errors
             = Inr (mean (filter (\<lambda>x. \<not> is_nan x) errors),
                    mean (filter (\<lambda>x. \<not> is_nan x) (map2 fmul errors normalized_mileage)))"
    using nk
    by (simp only: calculate_gradient_def option.case series_mean_skips_nan
        series_binop_same_length [OF len])
  show ?thesis
  proof (intro conjI impI)
    show "calculate_gradient self errors
           = Inr (mean (filter (\<lambda>x. \<not> is_nan x) errors),
                  mean (filter (\<lambda>x. \<not> is_nan x) (map2 fmul errors normalized_mileage)))"
      by (rule g)
  next
    assume no: "(\<forall>x\<in>set errors. \<not> is_nan x)
            \<and> (\<forall>x\<in>set (map2 fmul errors normalized_mileage). \<not> is_nan x)"
    then have "filter (\<lambda>x. \<not> is_nan x) errors = errors"
      and "filter (\<lambda>x. \<not> is_nan x) (map2 fmul errors normalized_mileage)
             = map2 fmul errors normalized_mileage"
      by (auto intro: filter_no_nan)
    with g show "calculate_gradient self errors
            = Inr (mean errors, mean (map2 fmul errors normalized_mileage))"
      by simp
  qed
qed

theorem calculate_gradient_skips_nan_witness:
  "mileages sample_trainer ''normalized_km'' = Some [Fin (- 1), Fin 0, Fin 1]
   \<and> length [Fin (- 3), Fin (- 2), Fin (- 1)] = length [Fin (- 1), Fin 0, Fin 1]
   \<and> map2 fmul [Fin (- 3), Fin (- 2), Fin (- 1)] [Fin (- 1), Fin 0, Fin 1]
       = [Fin 3, Fin 0, Fin (- 1)]
   \<and> calculate_gradient sample_trainer [Fin (- 3), Fin (- 2), Fin (- 1)]
       = Inr (mean [Fin (- 3), Fin (- 2), Fin (- 1)], mean [Fin 3, Fin 0, Fin (- 1)])
   \<and> mean [Fin (- 3), Fin (- 2), Fin (- 1)] = Fin (- 2)
   \<and> mean [Fin 3, Fin 0, Fin (- 1)] = Fin (2 / 3)"
proof -
  let ?es = "[Fin (- 3), Fin (- 2), Fin (- 1)]" and ?nk = "[Fin (- 1), Fin 0, Fin 1]"
  have a: "mileages sample_trainer ''normalized_km'' = Some ?nk"
    by (simp add: sample_trainer_def)
  have b: "length ?es = length ?nk" by simp
  have c: "(\<forall>x\<in>set ?es. \<not> is_nan x) \<and> (\<forall>x\<in>set (map2 fmul ?es ?nk). \<not> is_nan x)"
    by simp
  have d: "map2 fmul ?es ?nk = [Fin 3, Fin 0, Fin (- 1)]" by simp
  have e: "mean ?es = Fin (- 2)" "mean [Fin 3, Fin 0, Fin (- 1)] = Fin (2 / 3)"
    by (simp_all add: mean_def)
  from calculate_gradient_skips_nan
    [where self = sample_trainer and errors = ?es and normalized_mileage = ?nk, OF a b]
  have "calculate_gradient sample_trainer ?es = Inr (mean ?es, mean (map2 fmul ?es ?nk))"
    using c by blast
  with a d e show ?thesis by simp
qed

section \<open>The search over the grid\<close>

lemma calculate_gradient_mileages:
  "mileages s1 = mileages s2 \<Longrightarrow> calculate_gradient s1 es = calculate_gradient s2 es"
  by (simp add: calculate_gradient_def)

lemma gd_loop_mileages:
  "mileages s1 = mileages s2 \<Longrightarrow>
     gd_loop s1 df lr ct n i th = gd_loop s2 df lr ct n i th"
proof (induction s1 df lr ct n i th rule: gd_loop.induct)
  case (1 s1 df lr ct n i th)
  note cg = calculate_gradient_mileages [OF "1.prems"]
  show ?case
    by (subst gd_loop.simps [of s1], subst gd_loop.simps [of s2])
       (auto simp: "1.prems" [symmetric] cg [symmetric] intro: "1.IH"
             split: option.splits sum.splits)
qed

lemma gradient_descent_mileages:
  "mileages s1 = mileages s2 \<Longrightarrow>
     gradient_descent s1 df lr ct n = gradient_descent s2 df lr ct n"
  unfolding gradient_descent_def by (rule gd_loop_mileages)

lemma update_hyperparameters_frame [simp]:
  "mileages (update_hyperparameters self k lr ct th) = mileages self"
  "mean_km (update_hyperparameters self k lr ct th) = mean_km self"
  "std_km (update_hyperparameters self k lr ct th) = std_km self"
  by (simp_all add: update_hyperparameters_def)

lemma best_result_update [simp]:
  "best_result (update_hyperparameters self k lr ct th) = (Count k, Some lr, Some ct, Some th)"
  by (simp add: best_result_def update_hyperparameters_def)

lemma search_fold_append:
  "search_fold self df (xs @ ys) =
     (case search_fold self df xs of
        (self', Some e) \<Rightarrow> (self', Some e)
      | (self', None) \<Rightarrow> search_fold self' df ys)"
  by (induction self df xs rule: search_fold.induct)
     (auto split: sum.splits prod.splits option.splits)

lemma tuning_inner_fold:
  "tuning_inner self df lr cts = search_fold self df (map (\<lambda>ct. (lr, ct)) cts)"
  by (induction cts arbitrary: self) (auto split: sum.splits prod.splits)

lemma tuning_outer_fold:
  "tuning_outer self df lrs cts = search_fold self df (grid lrs cts)"
proof (induction lrs arbitrary: self)
  case Nil
  show ?case by (simp add: grid_def)
next
  case (Cons lr lrs)
  have "grid (lr # lrs) cts = map (\<lambda>ct. (lr, ct)) cts @ grid lrs cts"
    by (simp add: grid_def)
  then show ?case
    by (auto simp: search_fold_append tuning_inner_fold Cons.IH
             split: prod.splits option.splits)
qed

lemma search_fold_frame:
  "search_fold self df cands = (self', r) \<Longrightarrow>
     mileages self' = mileages self \<and> mean_km self' = mean_km self \<and> std_km self' = std_km self"
  by (induction self df cands rule: search_fold.induct)
     (auto split: sum.splits prod.splits if_splits)

lemma count_less_le: "count_less k b \<Longrightarrow> count_le (Count k) b"
  by (cases b) auto

lemma count_le_refl: "count_le b b"
  by (cases b) auto

lemma count_less_trans: "k < k0 \<Longrightarrow> count_less k0 b \<Longrightarrow> count_less k b"
  by (cases b) auto

lemma count_le_trans: "count_le a b \<Longrightarrow> count_le b c \<Longrightarrow> count_le a c"
  by (cases a; cases b; cases c) auto

lemma search_fold_replaced:
  "search_fold self df cands = (self', r) \<Longrightarrow>
     best_result self' = best_result self
     \<or> (\<exists>c\<in>set cands. \<exists>k th. run_candidate self df c = Inr (k, th)
           \<and> count_less k (best_iterations self)
           \<and> best_result self' = (Count k, Some (fst c), Some (snd c), Some th))"
proof (induction self df cands rule: search_fold.induct)
  case (1 self df)
  then show ?case by simp
next
  case (2 self df lr ct candidates)
  show ?case
  proof (cases "gradient_descent self df lr ct 500")
    case (Inl e)
    with "2.prems" show ?thesis by simp
  next
    case (Inr res)
    obtain k0 th0 where res: "res = (k0, th0)" by (cases res)
    let ?s1 = "if count_less k0 (best_iterations self)
               then update_hyperparameters self k0 lr ct th0 else self"
    have m: "mileages ?s1 = mileages self" by simp
    have run: "\<And>c. run_candidate ?s1 df c = run_candidate self df c"
      unfolding run_candidate_def by (rule gradient_descent_mileages [OF m])
    from "2.prems" Inr res have sf: "search_fold ?s1 df candidates = (self', r)" by simp
    from "2.IH" [OF Inr res [symmetric] sf]
    consider (same) "best_result self' = best_result ?s1"
      | (repl) c k th where "c \<in> set candidates" "run_candidate self df c = Inr (k, th)"
          "count_less k (best_iterations ?s1)"
          "best_result self' = (Count k, Some (fst c), Some (snd c), Some th)"
      unfolding run by blast
    then show ?thesis
    proof cases
      case same
      show ?thesis
      proof (cases "count_less k0 (best_iterations self)")
        case True
        with same Inr res show ?thesis
          by (auto simp: run_candidate_def)
      next
        case False
        with same show ?thesis by simp
      qed
    next
      case repl
      have "count_less k (best_iterations self)"
      proof (cases "count_less k0 (best_iterations self)")
        case True
        with repl(3) have "k < k0" by (simp add: update_hyperparameters_def)
        then show ?thesis using True by (rule count_less_trans)
      next
        case False
        with repl(3) show ?thesis by simp
      qed
      with repl
      have "\<exists>c\<in>set ((lr, ct) # candidates). \<exists>k th. run_candidate self df c = Inr (k, th)
              \<and> count_less k (best_iterations self)
              \<and> best_result self' = (Count k, Some (fst c), Some (snd c), Some th)"
        by (intro bexI [of _ c] exI [of _ k] exI [of _ th]) simp_all
      then show ?thesis ..
    qed
  qed
qed

lemma search_fold_monotone:
  assumes "search_fold self df cands = (self', r)"
  shows "count_le (best_iterations self') (best_iterations self)"
proof -
  from search_fold_replaced [OF assms]
  show ?thesis
    by (auto simp: best_result_def count_le_refl intro: count_less_le)
qed




lemma hyperparameter_tuning_state:
  "fst (hyperparameter_tuning self df lrs cts) = fst (search_fold self df (grid lrs cts))"
  by (simp add: hyperparameter_tuning_def tuning_outer_fold
      split: prod.splits option.splits sum.splits)



lemma sample_run_1: "gradient_descent sample_trainer sample_csv (Fin 1) (Fin 1) 500
    = Inr (2, (Fin 2, Fin (- 2 / 3)))"
  by (simp add: sample_eval)

lemma sample_run_3: "gradient_descent sample_trainer sample_csv (Fin 1) (Fin 3) 500
    = Inr (1, (Fin 0, Fin 0))"
  by (simp add: sample_eval)

lemma sample_run_4: "gradient_descent sample_trainer sample_csv (Fin 1) (Fin 4) 500
    = Inr (1, (Fin 0, Fin 0))"
  by (simp add: sample_eval)

lemma gradient_descent_update [simp]:
  "gradient_descent (update_hyperparameters self k lr' ct' th) df lr ct n
     = gradient_descent self df lr ct n"
  by (rule gradient_descent_mileages) simp

lemma best_iterations_update [simp]:
  "best_iterations (update_hyperparameters self k lr ct th) = Count k"
  by (simp add: update_hyperparameters_def)

lemma sample_search:
  "search_fold sample_trainer sample_csv [(Fin 1, Fin 1), (Fin 1, Fin 3), (Fin 1, Fin 4)]
     = (sample_trainer \<lparr> best_learning_rate := Some (Fin 1),
                          best_convergence_threshold := Some (Fin 3),
                          best_iterations := Count 1,
                          best_theta := Some (Fin 0, Fin 0) \<rparr>, None)"
  by (simp add: sample_run_1 sample_run_3 sample_run_4)
     (simp add: update_hyperparameters_def sample_trainer_def)





text \<open>
  Claim C7. The best-result state starts as \<open>(+infinity, None, None, None)\<close>. A search
  is a pass over its candidates; after any pass the state is either the one before it, or
  the four values of one candidate of the pass, whose count is strictly smaller than the
  one held before. Along a pass \<^verbatim>\<open>best_iterations\<close> never increases: what is held
  after more candidates is at most what was held after fewer.
\<close>

theorem best_result_only_improves:
  "(init csv = Inr self0 \<longrightarrow> best_result self0 = (Infinity, None, None, None))
   \<and> fst (hyperparameter_tuning self df learning_rates convergence_thresholds)
       = fst (search_fold self df (grid learning_rates convergence_thresholds))
   \<and> (best_result (fst (search_fold self df candidates)) = best_result self
      \<or> (\<exists>c\<in>set candidates. \<exists>k th. run_candidate self df c = Inr (k, th)
            \<and> count_less k (best_iterations self)
            \<and> best_result (fst (search_fold self df candidates))
                = (Count k, Some (fst c), Some (snd c), Some th)))
   \<and> count_le (best_iterations (fst (search_fold self df (xs @ ys))))
               (best_iterations (fst (search_fold self df xs)))"
proof (intro conjI impI)
  assume "init csv = Inr self0"
  then show "best_result self0 = (Infinity, None, None, None)"
    by (auto simp: init_def best_result_def Let_def split: option.splits)
next
  show "fst (hyperparameter_tuning self df learning_rates convergence_thresholds)
       = fst (search_fold self df (grid learning_rates convergence_thresholds))"
    by (rule hyperparameter_tuning_state)
next
  show "best_result (fst (search_fold self df candidates)) = best_result self
      \<or> (\<exists>c\<in>set candidates. \<exists>k th. run_candidate self df c = Inr (k, th)
            \<and> count_less k (best_iterations self)
            \<and> best_result (fst (search_fold self df candidates))
                = (Count k, Some (fst c), Some (snd c), Some th))"
    by (rule search_fold_replaced [where r = "snd (search_fold self df candidates)"]) simp
next
  obtain s1 r1 where x: "search_fold self df xs = (s1, r1)" by (cases "search_fold self df xs")
  show "count_le (best_iterations (fst (search_fold self df (xs @ ys))))
               (best_iterations (fst (search_fold self df xs)))"
  proof (cases r1)
    case (Some e)
    with x show ?thesis by (simp add: search_fold_append count_le_refl)
  next
    case None
    obtain s2 r2 where y: "search_fold s1 df ys = (s2, r2)" by (cases "search_fold s1 df ys")
    from search_fold_monotone [OF y] x None y show ?thesis
      by (simp add: search_fold_append)
  qed
qed


theorem best_result_only_improves_witness:
  "init sample_csv = Inr sample_trainer
   \<and> best_result sample_trainer = (Infinity, None, None, None)
   \<and> best_iterations (fst (search_fold sample_trainer sample_csv [(Fin 1, Fin 1)])) = Count 2
   \<and> best_iterations (fst (search_fold sample_trainer sample_csv
         ([(Fin 1, Fin 1)] @ [(Fin 1, Fin 3), (Fin 1, Fin 4)]))) = Count 1
   \<and> count_le (Count 1) (Count 2)"
proof -
  have a: "best_iterations (fst (search_fold sample_trainer sample_csv [(Fin 1, Fin 1)]))
             = Count 2"
    by (simp add: sample_run_1) (simp add: sample_trainer_def)
  have b: "best_iterations (fst (search_fold sample_trainer sample_csv
             ([(Fin 1, Fin 1)] @ [(Fin 1, Fin 3), (Fin 1, Fin 4)]))) = Count 1"
    by (simp only: append_Cons append_Nil sample_search) simp
  from best_result_only_improves
    [where csv = sample_csv and ?self0.0 = sample_trainer and self = sample_trainer
       and df = sample_csv and xs = "[(Fin 1, Fin 1)]"
       and ys = "[(Fin 1, Fin 3), (Fin 1, Fin 4)]"]
    sample_trainer_init a b
  show ?thesis by simp
qed

section \<open>What the search leaves unchanged\<close>

text \<open>
  Claim C9. The search leaves the frame of the trainer (its \<^verbatim>\<open>normalized_km\<close>
  column included) and the two statistics as they were, whether it returns or raises. The
  runs of \<^verbatim>\<open>gradient_descent\<close> inside it are part of this: that method assigns to
  nothing, which is why its model returns no state.
\<close>

theorem hyperparameter_tuning_frame:
  "mileages (fst (hyperparameter_tuning self df learning_rates convergence_thresholds))
     = mileages self
   \<and> mean_km (fst (hyperparameter_tuning self df learning_rates convergence_thresholds))
     = mean_km self
   \<and> std_km (fst (hyperparameter_tuning self df learning_rates convergence_thresholds))
     = std_km self"
  unfolding hyperparameter_tuning_state
  by (rule search_fold_frame
        [where r = "snd (search_fold self df (grid learning_rates convergence_thresholds))"])
     simp

theorem hyperparameter_tuning_frame_witness:
  "mileages (fst (hyperparameter_tuning sample_trainer sample_csv [Fin 1] [Fin 1, Fin 3, Fin 4]))
     = mileages sample_trainer
   \<and> mean_km (fst (hyperparameter_tuning sample_trainer sample_csv [Fin 1] [Fin 1, Fin 3, Fin 4]))
     = Fin 2
   \<and> std_km (fst (hyperparameter_tuning sample_trainer sample_csv [Fin 1] [Fin 1, Fin 3, Fin 4]))
     = Fin 2"
  using hyperparameter_tuning_frame
    [where self = sample_trainer and df = sample_csv and learning_rates = "[Fin 1]"
       and convergence_thresholds = "[Fin 1, Fin 3, Fin 4]"]
  by (simp add: sample_trainer_def)

section \<open>Inputs that the program does not check\<close>

lemma fadd_NaN_right [simp]: "fadd x NaN = NaN"
  by (cases x) simp_all

lemma fmul_NaN_right [simp]: "fmul x NaN = NaN"
  by (cases x) simp_all

lemma fsub_NaN [simp]: "fsub NaN x = NaN" "fsub x NaN = NaN"
  by (simp_all add: fsub_def)

lemma series_binop_all_nan:
  "\<forall>x\<in>set xs. x = NaN \<Longrightarrow> \<forall>y. f NaN y = NaN \<Longrightarrow> \<forall>z\<in>set (series_binop f xs ys). z = NaN"
  by (induction f xs ys rule: series_binop.induct) auto

lemma series_mean_all_nan: "\<forall>x\<in>set xs. x = NaN \<Longrightarrow> series_mean xs = NaN"
proof -
  assume a: "\<forall>x\<in>set xs. x = NaN"
  then have "dropna xs = []" by (auto simp: dropna_def filter_empty_conv)
  then show ?thesis by (simp add: series_mean_def series_sum_def signed_inf_def)
qed

lemma next_theta_nan:
  assumes "\<forall>x\<in>set nk. x = NaN"
  shows "next_theta nk price lr th = (NaN, NaN)"
proof -
  let ?errors = "series_binop fsub (map (\<lambda>x. estimate_price x th) nk) price"
  have "\<forall>x\<in>set (map (\<lambda>x. estimate_price x th) nk). x = NaN"
    using assms by (auto simp: estimate_price_def)
  then have e: "\<forall>z\<in>set ?errors. z = NaN"
    by (rule series_binop_all_nan) simp
  then have p: "\<forall>z\<in>set (series_binop fmul ?errors nk). z = NaN"
    by (rule series_binop_all_nan) simp
  show ?thesis
    by (simp add: next_theta_def Let_def series_mean_all_nan [OF e] series_mean_all_nan [OF p]
        calculate_new_theta_def)
qed

lemma not_converged_nan [simp]: "\<not> convergence_threshold_reached (NaN, NaN) th ct"
  by (simp add: convergence_threshold_reached_def)

lemma gradient_descent_nan:
  assumes nk: "mileages self ''normalized_km'' = Some nk"
    and pr: "df ''price'' = Some price"
    and nan: "\<forall>x\<in>set nk. x = NaN"
    and pos: "0 < iterations"
  shows "gradient_descent self df lr ct iterations = Inr (iterations, (NaN, NaN))"
proof -
  have after: "theta_after nk price lr (Suc j) = (NaN, NaN)" for j
    by (simp add: next_theta_nan [OF nan])
  have no: "\<forall>j. int j < iterations \<longrightarrow> \<not> converges_at nk price lr ct j"
    by (simp add: converges_at_def next_theta_nan [OF nan])
  obtain m where m: "nat iterations = Suc m" using pos by (cases "nat iterations") auto
  from gradient_descent_exhausts [where self = self and df = df, OF nk pr pos no]
  show ?thesis by (simp add: m after del: theta_after.simps)
qed

lemma single_trainer_init: "init single_csv = Inr single_trainer"
  by (simp add: init_def single_csv_def single_trainer_def series_mean_def series_std_def
      dropna_def series_sum_def fsub_def normalize_mileage_def Let_def)

lemma flat_trainer_init: "init flat_csv = Inr flat_trainer"
  by (simp add: init_def flat_csv_def flat_trainer_def series_mean_def series_std_def
      dropna_def series_sum_def fsub_def normalize_mileage_def Let_def signed_inf_def)

lemma single_run:
  "gradient_descent single_trainer single_csv lr ct 500 = Inr (500, (NaN, NaN))"
  by (rule gradient_descent_nan [where nk = "[NaN]" and price = "[Fin 1]"])
     (simp_all add: single_trainer_def single_csv_def)

lemma flat_run:
  "gradient_descent flat_trainer flat_csv lr ct 500 = Inr (500, (NaN, NaN))"
  by (rule gradient_descent_nan [where nk = "[NaN, NaN]" and price = "[Fin 1, Fin 2]"])
     (simp_all add: flat_trainer_def flat_csv_def)

lemma fdiv_zero_not_fin: "\<not> is_fin (fdiv a (Fin 0))"
  by (cases a) (simp_all add: signed_inf_def)

lemma tuning_outer_no_thresholds: "tuning_outer self df lrs [] = (self, None)"
  by (induction lrs) simp_all

text \<open>
  Claim C5, as stated, fails: on two rows of mileage 5 the deviation is 0, and neither
  the initialisation nor the search raises; the normalized mileages are NaN, and NaN
  parameters are written.
\<close>

theorem zero_variance_not_detected:
  "init flat_csv = Inr flat_trainer
   \<and> std_km flat_trainer = Fin 0
   \<and> mileages flat_trainer ''normalized_km'' = Some [NaN, NaN]
   \<and> hyperparameter_tuning flat_trainer flat_csv [Fin (1 / 10)] [Fin (1 / 1000)]
       = (flat_trainer \<lparr> best_learning_rate := Some (Fin (1 / 10)),
                          best_convergence_threshold := Some (Fin (1 / 1000)),
                          best_iterations := Count 500,
                          best_theta := Some (NaN, NaN) \<rparr>,
          Inr (\<lparr> theta_0 = NaN, theta_1 = NaN, json_mean_km = Fin 5, json_std_km = Fin 0 \<rparr>,
               Some (NaN, NaN)))"
  by (simp add: flat_trainer_init hyperparameter_tuning_def flat_run
      update_hyperparameters_def model_to_json_def)
     (simp add: flat_trainer_def)

text \<open>
  Claim C5, amended. When the deviation of the mileage column is 0, the initialisation
  raises nothing: it stores the deviation 0, and every normalized mileage is a non-finite
  value.
\<close>

theorem init_zero_variance:
  assumes "csv ''km'' = Some km" and "series_std km = Fin 0"
  shows "\<exists>self nk. init csv = Inr self \<and> std_km self = Fin 0
           \<and> mileages self ''normalized_km'' = Some nk \<and> length nk = length km
           \<and> (\<forall>x\<in>set nk. \<not> is_fin x)"
  using assms by (simp add: init_def Let_def normalize_mileage_def fdiv_zero_not_fin)


theorem init_zero_variance_witness:
  "flat_csv ''km'' = Some [Fin 5, Fin 5]
   \<and> series_std [Fin 5, Fin 5] = Fin 0
   \<and> (\<exists>self nk. init flat_csv = Inr self \<and> std_km self = Fin 0
           \<and> mileages self ''normalized_km'' = Some nk \<and> length nk = length [Fin 5, Fin 5]
           \<and> (\<forall>x\<in>set nk. \<not> is_fin x))"
proof -
  have a: "flat_csv ''km'' = Some [Fin 5, Fin 5]" by (simp add: flat_csv_def)
  have b: "series_std [Fin 5, Fin 5] = Fin 0"
    by (simp add: series_std_def dropna_def series_sum_def fsub_def)
  from init_zero_variance [where csv = flat_csv, OF a b] a b show ?thesis by blast
qed

text \<open>
  Claim C6, as stated, fails: on a sample set of one row, with one candidate in each
  list, nothing is raised; the optimizer runs its 500 iterations and NaN parameters are
  written.
\<close>

theorem too_few_samples_not_reported:
  "init single_csv = Inr single_trainer
   \<and> hyperparameter_tuning single_trainer single_csv [Fin (1 / 10)] [Fin (1 / 1000)]
       = (single_trainer \<lparr> best_learning_rate := Some (Fin (1 / 10)),
                            best_convergence_threshold := Some (Fin (1 / 1000)),
                            best_iterations := Count 500,
                            best_theta := Some (NaN, NaN) \<rparr>,
          Inr (\<lparr> theta_0 = NaN, theta_1 = NaN, json_mean_km = Fin 5, json_std_km = NaN \<rparr>,
               Some (NaN, NaN)))"
  by (simp add: single_trainer_init hyperparameter_tuning_def single_run
      update_hyperparameters_def model_to_json_def)
     (simp add: single_trainer_def)

text \<open>
  Claim C6, amended. When one of the two lists of candidates is empty, and the trainer
  holds no best result yet, \<^verbatim>\<open>hyperparameter_tuning\<close> runs the optimizer not even
  once (the frame passed in is not read) and ends in the \<^verbatim>\<open>TypeError\<close> that
  \<^verbatim>\<open>model_to_json\<close> raises on \<^verbatim>\<open>best_theta = None\<close>; the trainer is unchanged.
\<close>

theorem hyperparameter_tuning_empty_candidates:
  assumes "best_theta self = None"
    and "learning_rates = [] \<or> convergence_thresholds = []"
  shows "hyperparameter_tuning self df learning_rates convergence_thresholds
           = (self, Inl TypeError)"
  using assms
  by (auto simp: hyperparameter_tuning_def tuning_outer_no_thresholds model_to_json_def)

theorem hyperparameter_tuning_empty_candidates_witness:
  "best_theta sample_trainer = None
   \<and> hyperparameter_tuning sample_trainer Map.empty [Fin 1] [] = (sample_trainer, Inl TypeError)
   \<and> gradient_descent sample_trainer Map.empty (Fin 1) (Fin 1) 500 = Inl (KeyError ''price'')"
proof -
  have a: "best_theta sample_trainer = None" by (simp add: sample_trainer_def)
  have b: "[Fin 1] = [] \<or> ([]::pyfloat list) = []" by simp
  have c: "gradient_descent sample_trainer Map.empty (Fin 1) (Fin 1) 500
             = Inl (KeyError ''price'')"
    by (simp add: gradient_descent_def gd_loop.simps sample_trainer_def)
  from hyperparameter_tuning_empty_candidates
    [where self = sample_trainer and df = Map.empty, OF a b] a c
  show ?thesis by simp
qed

end
